theory Spec2Isabelle
  imports Main
begin

section \<open>Persistence models of aleph/model/document.py\<close>

text \<open>
  The module declares three ORM classes (\<open>Document\<close>, \<open>DocumentPage\<close>,
  \<open>DocumentRecord\<close>) and a handful of methods on them. The embedding keeps the classes
  as records, the database session as an explicit state that every method takes and
  returns, and each call the methods make on the session as an entry of a call log, so that
  the order of the calls can be stated.
\<close>

subsection \<open>Python values\<close>

text \<open>
  The values the module moves around without looking inside: JSON payloads of the
  \<open>JSONB\<close> columns, dictionary entries, timestamps. A JSON object is an association
  list, because \<open>values()\<close> is iterated in the dictionary's order.
\<close>

datatype pyval =
    PNone
  | PBool bool
  | PInt int
  | PStr string
  | PTime int
  | PList "pyval list"
  | PDict "(string \<times> pyval) list"

type_synonym pydict = "string \<rightharpoonup> pyval"

text \<open>A nullable column read into a Python value: \<open>NULL\<close> is \<open>None\<close>.\<close>

definition py_of_str :: "string option \<Rightarrow> pyval" where
  "py_of_str s = (case s of None \<Rightarrow> PNone | Some t \<Rightarrow> PStr t)"

definition py_of_int :: "int option \<Rightarrow> pyval" where
  "py_of_int i = (case i of None \<Rightarrow> PNone | Some k \<Rightarrow> PInt k)"

definition py_of_time :: "int option \<Rightarrow> pyval" where
  "py_of_time t = (case t of None \<Rightarrow> PNone | Some k \<Rightarrow> PTime k)"

subsection \<open>The mapped classes\<close>

text \<open>
  One record per class, one field per column. The primary key of a \<open>Document\<close> is
  \<open>None\<close> on an instance that was never flushed. \<open>document_id\<close> of a page and of a
  record is declared with a foreign key and without \<open>nullable=False\<close>, so it is an
  optional integer. \<open>created_at\<close> and \<open>updated_at\<close> come from the \<open>DatedModel\<close> mixin.
\<close>

record document =
  doc_id :: "int option"
  doc_content_hash :: "string option"
  doc_foreign_id :: "string option"
  doc_type :: string
  doc_meta :: "pydict option"
  doc_collection_id :: "int option"
  doc_created_at :: "int option"
  doc_updated_at :: "int option"

record document_page =
  page_id :: int
  page_number :: int
  page_text :: string
  page_document_id :: "int option"

record document_record =
  rec_id :: int
  rec_sheet :: int
  rec_row_id :: int
  rec_data :: pyval
  rec_document_id :: "int option"

text \<open>
  \<open>Reference\<close> is imported from \<open>aleph.model.reference\<close>; the module reads two of its
  columns, \<open>document_id\<close> and \<open>origin\<close>.
\<close>

record reference =
  ref_id :: int
  ref_document_id :: "int option"
  ref_origin :: "string option"

text \<open>The dictionaries \<open>insert_records\<close> hands to \<open>bulk_insert_mappings\<close>.\<close>

record record_mapping =
  m_document_id :: "int option"
  m_row_id :: int
  m_sheet :: int
  m_data :: pyval

subsection \<open>The database session\<close>

datatype table = ReferenceTable | RecordTable | PageTable

datatype db_call =
    QueryDelete table "int option" "string option"
  | Refresh "int option"
  | SessionDelete "int option"
  | SessionAdd "int option"
  | BulkInsertMappings "record_mapping list"

record db =
  tbl_document :: "document list"
  tbl_page :: "document_page list"
  tbl_record :: "document_record list"
  tbl_reference :: "reference list"
  record_seq :: int
  session_new :: "document list"
  calls :: "db_call list"

definition log_call :: "db_call \<Rightarrow> db \<Rightarrow> db" where
  "log_call c s = s\<lparr>calls := calls s @ [c]\<rparr>"

text \<open>
  \<open>db.session.bulk_insert_mappings(DocumentRecord, chunk)\<close>: one row per mapping, in
  the order of the chunk; the primary key comes from the table's sequence.
\<close>

fun rows_of_mappings :: "int \<Rightarrow> record_mapping list \<Rightarrow> document_record list" where
  "rows_of_mappings k [] = []"
| "rows_of_mappings k (m # ms) =
     \<lparr>rec_id = k, rec_sheet = m_sheet m, rec_row_id = m_row_id m, rec_data = m_data m,
      rec_document_id = m_document_id m\<rparr> # rows_of_mappings (k + 1) ms"

definition bulk_insert_mappings :: "record_mapping list \<Rightarrow> db \<Rightarrow> db" where
  "bulk_insert_mappings chunk s =
     log_call (BulkInsertMappings chunk)
       (s\<lparr>tbl_record := tbl_record s @ rows_of_mappings (record_seq s) chunk,
          record_seq := record_seq s + int (length chunk)\<rparr>)"

definition mapping_of :: "document_record \<Rightarrow> record_mapping" where
  "mapping_of r =
     \<lparr>m_document_id = rec_document_id r, m_row_id = rec_row_id r, m_sheet = rec_sheet r,
      m_data = rec_data r\<rparr>"

subsection \<open>Document.insert_records\<close>

text \<open>
  The loop over \<open>enumerate(iterable)\<close>: the element is appended to the chunk, and the
  chunk is flushed when \<open>len(chunk) >= chunk_size\<close>. The loop returns the chunk that is
  left and the session.
\<close>

definition record_entry :: "document \<Rightarrow> int \<Rightarrow> nat \<Rightarrow> pyval \<Rightarrow> record_mapping" where
  "record_entry self sheet i data =
     \<lparr>m_document_id = doc_id self, m_row_id = int i, m_sheet = sheet, m_data = data\<rparr>"

fun insert_loop ::
  "document \<Rightarrow> int \<Rightarrow> int \<Rightarrow> (nat \<times> pyval) list \<Rightarrow> record_mapping list \<Rightarrow> db
    \<Rightarrow> record_mapping list \<times> db" where
  "insert_loop self sheet chunk_size [] chunk s = (chunk, s)"
| "insert_loop self sheet chunk_size ((i, data) # rest) chunk s =
     (let chunk' = chunk @ [record_entry self sheet i data]
      in if int (length chunk') \<ge> chunk_size
         then insert_loop self sheet chunk_size rest [] (bulk_insert_mappings chunk' s)
         else insert_loop self sheet chunk_size rest chunk' s)"

definition insert_records :: "document \<Rightarrow> int \<Rightarrow> pyval list \<Rightarrow> int \<Rightarrow> db \<Rightarrow> db" where
  "insert_records self sheet iterable chunk_size s =
     (case insert_loop self sheet chunk_size (enumerate 0 iterable) [] s of
        (chunk, s') \<Rightarrow> if length chunk \<noteq> 0 then bulk_insert_mappings chunk s' else s')"

text \<open>The call that leaves \<open>chunk_size\<close> to its default.\<close>

definition insert_records_default :: "document \<Rightarrow> int \<Rightarrow> pyval list \<Rightarrow> db \<Rightarrow> db" where
  "insert_records_default self sheet iterable s = insert_records self sheet iterable 1000 s"

text \<open>
  What the claim expects, in its own words: the mappings of the whole iterable, and their
  split into consecutive chunks of \<open>n\<close> rows with a shorter last one.
\<close>

definition expected_mappings :: "document \<Rightarrow> int \<Rightarrow> nat \<Rightarrow> pyval list \<Rightarrow> record_mapping list" where
  "expected_mappings self sheet k iterable =
     map (\<lambda>(i, data). record_entry self sheet i data) (enumerate k iterable)"

fun chunks_of :: "nat \<Rightarrow> 'a list \<Rightarrow> 'a list list" where
  "chunks_of n xs =
     (if xs = [] then []
      else if n = 0 \<or> length xs \<le> n then [xs]
      else take n xs # chunks_of n (drop n xs))"

definition bulk_inserts :: "db_call list \<Rightarrow> record_mapping list list" where
  "bulk_inserts cs = concat (map (\<lambda>c. case c of BulkInsertMappings ch \<Rightarrow> [ch] | _ \<Rightarrow> []) cs)"

definition chunks_within :: "int \<Rightarrow> record_mapping list list \<Rightarrow> bool" where
  "chunks_within n chs = list_all (\<lambda>ch. ch \<noteq> [] \<and> int (length ch) \<le> n) chs"

text \<open>
  The two halves of the loop's effect on a list of mappings: the chunks that reach
  \<open>chunk_size\<close> inside the loop, and the rest that the loop leaves behind.
\<close>

fun flushed :: "nat \<Rightarrow> 'a list \<Rightarrow> 'a list list" where
  "flushed n xs = (if n = 0 \<or> length xs < n then [] else take n xs # flushed n (drop n xs))"

fun leftover :: "nat \<Rightarrow> 'a list \<Rightarrow> 'a list" where
  "leftover n xs = (if n = 0 \<or> length xs < n then xs else leftover n (drop n xs))"

subsection \<open>Queries and bulk deletion\<close>

text \<open>
  \<open>db.session.query(Model)\<close> selects every row; \<open>.filter(c)\<close> adds a criterion;
  \<open>.delete(synchronize_session='fetch')\<close> removes the selected rows from the table.
  A criterion \<open>Column == value\<close> is equality on optional values: SQLAlchemy renders a
  comparison with \<open>None\<close> as \<open>IS NULL\<close>, and a \<open>NULL\<close> column equals no value.
\<close>

type_synonym 'r query = "'r \<Rightarrow> bool"

definition query_all :: "'r query" where
  "query_all = (\<lambda>r. True)"

definition filter_q :: "'r query \<Rightarrow> ('r \<Rightarrow> bool) \<Rightarrow> 'r query" where
  "filter_q q c = (\<lambda>r. q r \<and> c r)"

definition delete_rows :: "'r query \<Rightarrow> 'r list \<Rightarrow> 'r list" where
  "delete_rows q rows = filter (\<lambda>r. \<not> q r) rows"

text \<open>
  \<open>db.session.refresh(self)\<close> reloads the attributes of the instance; it writes
  nothing to the tables.
\<close>

definition refresh :: "document \<Rightarrow> db \<Rightarrow> db" where
  "refresh self s = log_call (Refresh (doc_id self)) s"

definition delete_pages :: "document \<Rightarrow> db \<Rightarrow> db" where
  "delete_pages self s =
     (let pq = query_all;
          pq = filter_q pq (\<lambda>p. page_document_id p = doc_id self);
          s = log_call (QueryDelete PageTable (doc_id self) None)
                (s\<lparr>tbl_page := delete_rows pq (tbl_page s)\<rparr>)
      in refresh self s)"

definition delete_records :: "document \<Rightarrow> db \<Rightarrow> db" where
  "delete_records self s =
     (let pq = query_all;
          pq = filter_q pq (\<lambda>r. rec_document_id r = doc_id self);
          s = log_call (QueryDelete RecordTable (doc_id self) None)
                (s\<lparr>tbl_record := delete_rows pq (tbl_record s)\<rparr>)
      in refresh self s)"

definition delete_references :: "document \<Rightarrow> string option \<Rightarrow> db \<Rightarrow> db" where
  "delete_references self origin s =
     (let pq = query_all;
          pq = filter_q pq (\<lambda>r. ref_document_id r = doc_id self);
          pq = (if origin \<noteq> None then filter_q pq (\<lambda>r. ref_origin r = origin) else pq);
          s = log_call (QueryDelete ReferenceTable (doc_id self) origin)
                (s\<lparr>tbl_reference := delete_rows pq (tbl_reference s)\<rparr>)
      in refresh self s)"

text \<open>
  \<open>db.session.delete(self)\<close>: the row of the instance goes, and with it the members of
  its \<open>pages\<close> and \<open>records\<close> collections, which both relationships declare with
  \<open>cascade='all, delete-orphan'\<close>. The collections of an instance are the rows whose
  \<open>document_id\<close> is its primary key; an instance without a primary key has none stored.
\<close>

definition pages :: "db \<Rightarrow> document \<Rightarrow> document_page list" where
  "pages s self =
     (case doc_id self of
        None \<Rightarrow> []
      | Some k \<Rightarrow> filter (\<lambda>p. page_document_id p = Some k) (tbl_page s))"

definition records :: "db \<Rightarrow> document \<Rightarrow> document_record list" where
  "records s self =
     (case doc_id self of
        None \<Rightarrow> []
      | Some k \<Rightarrow> filter (\<lambda>r. rec_document_id r = Some k) (tbl_record s))"

definition session_delete :: "document \<Rightarrow> db \<Rightarrow> db" where
  "session_delete self s =
     log_call (SessionDelete (doc_id self))
       (s\<lparr>tbl_document := filter (\<lambda>d. doc_id d \<noteq> doc_id self) (tbl_document s),
          tbl_page := filter (\<lambda>p. p \<notin> set (pages s self)) (tbl_page s),
          tbl_record := filter (\<lambda>r. r \<notin> set (records s self)) (tbl_record s)\<rparr>)"

text \<open>\<open>Document.delete\<close>; its \<open>deleted_at\<close> argument is not used.\<close>

definition delete :: "document \<Rightarrow> int option \<Rightarrow> db \<Rightarrow> db" where
  "delete self deleted_at s =
     (let s = delete_references self None s;
          s = delete_records self s;
          s = delete_pages self s
      in session_delete self s)"

text \<open>The state after the three cleanups of \<open>delete\<close>, before the row is deleted.\<close>

definition cleaned :: "document \<Rightarrow> db \<Rightarrow> db" where
  "cleaned self s = delete_pages self (delete_records self (delete_references self None s))"

subsection \<open>Exceptions\<close>

datatype error =
    ValidationError string
  | AttributeError
  | RuntimeError
  | OtherError string

subsection \<open>Metadata and the meta property\<close>

text \<open>
  \<open>Metadata\<close> is imported from \<open>aleph.metadata\<close>. The module calls six of its methods
  and reads two of its properties; they are the fields of an interface that every
  definition below takes as its first argument.
\<close>

record 'm metadata_api =
  md_from_data :: "pydict \<Rightarrow> 'm"
  md_update :: "'m \<Rightarrow> pydict \<Rightarrow> bool \<Rightarrow> 'm"
  md_content_hash :: "'m \<Rightarrow> string option"
  md_foreign_id :: "'m \<Rightarrow> string option"
  md_to_attr_dict :: "'m \<Rightarrow> pydict"
  md_to_dict :: "'m \<Rightarrow> pydict"
  md_to_index_dict :: "'m \<Rightarrow> pydict"

text \<open>
  The getter of \<open>meta\<close> writes to the instance: \<open>_meta\<close> becomes a dictionary (\<open>or {}\<close>)
  that holds the two columns, and the \<open>Metadata\<close> is built from it. It returns the
  \<open>Metadata\<close> and the instance.
\<close>

definition meta_get :: "'m metadata_api \<Rightarrow> document \<Rightarrow> 'm \<times> document" where
  "meta_get M self =
     (let m = (case doc_meta self of None \<Rightarrow> Map.empty | Some d \<Rightarrow> d);
          m = m(''content_hash'' \<mapsto> py_of_str (doc_content_hash self));
          m = m(''foreign_id'' \<mapsto> py_of_str (doc_foreign_id self))
      in (md_from_data M m, self\<lparr>doc_meta := Some m\<rparr>))"

text \<open>
  The setter takes a \<open>Metadata\<close> or anything else; only a \<open>Metadata\<close> writes the two
  columns. \<open>flag_modified\<close> marks the column as dirty for the next flush and changes no
  value.
\<close>

datatype 'm meta_value = MetadataObj 'm | RawMeta "pydict option"

definition meta_set :: "'m metadata_api \<Rightarrow> 'm meta_value \<Rightarrow> document \<Rightarrow> document" where
  "meta_set M meta self =
     (case meta of
        MetadataObj m \<Rightarrow>
          self\<lparr>doc_content_hash := md_content_hash M m,
               doc_foreign_id := md_foreign_id M m,
               doc_meta := Some (md_to_attr_dict M m)\<rparr>
      | RawMeta d \<Rightarrow> self\<lparr>doc_meta := d\<rparr>)"

subsection \<open>Document.update\<close>

definition schema :: string where
  "schema = ''document.json#''"

definition session_add :: "document \<Rightarrow> db \<Rightarrow> db" where
  "session_add self s = log_call (SessionAdd (doc_id self)) (s\<lparr>session_new := session_new s @ [self]\<rparr>)"

text \<open>
  \<open>validate\<close> is imported from \<open>aleph.data.validate\<close>; it returns or raises. The result
  of \<open>update\<close> is the outcome together with the instance and the session as the call leaves
  them, so that what an exception leaves behind can be stated.
\<close>

definition update ::
  "(pydict \<Rightarrow> string \<Rightarrow> error + unit) \<Rightarrow> 'm metadata_api \<Rightarrow> document \<Rightarrow> pydict \<Rightarrow> db
    \<Rightarrow> (error + unit) \<times> document \<times> db" where
  "update validate M self data s =
     (case validate data schema of
        Inl e \<Rightarrow> (Inl e, self, s)
      | Inr u \<Rightarrow>
          (case meta_get M self of
             (meta, self) \<Rightarrow>
               (let meta = md_update M meta data True;
                    self = meta_set M (MetadataObj meta) self
                in (Inr (), self, session_add self s))))"

subsection \<open>Serialisation\<close>

text \<open>
  \<open>request\<close> is Flask's request proxy: outside a request it raises on any attribute
  access, inside one \<open>request.authz.collection_public\<close> returns or raises. The bare
  \<open>except\<close> of \<open>_add_to_dict\<close> catches either.
\<close>

type_synonym request = "(int option \<Rightarrow> error + pyval) option"

definition collection_public :: "request \<Rightarrow> int option \<Rightarrow> error + pyval" where
  "collection_public req source_id =
     (case req of None \<Rightarrow> Inl RuntimeError | Some authz \<Rightarrow> authz source_id)"

definition add_to_dict :: "request \<Rightarrow> document \<Rightarrow> pydict \<Rightarrow> pydict" where
  "add_to_dict req self data =
     (let data = (case collection_public req (doc_collection_id self) of
                    Inr v \<Rightarrow> data(''public'' \<mapsto> v)
                  | Inl e \<Rightarrow> data(''public'' \<mapsto> PNone))
      in data ++ [''id'' \<mapsto> py_of_int (doc_id self),
                  ''type'' \<mapsto> PStr (doc_type self),
                  ''collection_id'' \<mapsto> py_of_int (doc_collection_id self),
                  ''created_at'' \<mapsto> py_of_time (doc_created_at self),
                  ''updated_at'' \<mapsto> py_of_time (doc_updated_at self)])"

definition to_dict :: "'m metadata_api \<Rightarrow> request \<Rightarrow> document \<Rightarrow> pydict \<times> document" where
  "to_dict M req self =
     (case meta_get M self of (meta, self) \<Rightarrow> (add_to_dict req self (md_to_dict M meta), self))"

definition to_index_dict :: "'m metadata_api \<Rightarrow> request \<Rightarrow> document \<Rightarrow> pydict \<times> document" where
  "to_index_dict M req self =
     (case meta_get M self of
        (meta, self) \<Rightarrow> (add_to_dict req self (md_to_index_dict M meta), self))"

subsection \<open>DocumentRecord.tid\<close>

text \<open>
  \<open>str\<close> of an integer is its decimal numeral, \<open>str(None)\<close> is \<open>None\<close>. \<open>sha1\<close> comes
  from \<open>hashlib\<close>: a hash object collects the bytes it is fed, and \<open>hexdigest\<close> is a
  function of all of them, here the parameter \<open>H\<close>.
\<close>

fun str_nat :: "nat \<Rightarrow> string" where
  "str_nat n =
     (if n < 10 then [''0123456789'' ! n]
      else str_nat (n div 10) @ [''0123456789'' ! (n mod 10)])"

definition str_int :: "int \<Rightarrow> string" where
  "str_int i = (if i < 0 then CHR ''-'' # str_nat (nat (- i)) else str_nat (nat i))"

definition str_opt :: "int option \<Rightarrow> string" where
  "str_opt v = (case v of None \<Rightarrow> ''None'' | Some i \<Rightarrow> str_int i)"

definition sha1_new :: "string \<Rightarrow> string" where
  "sha1_new bytes = bytes"

definition sha1_update :: "string \<Rightarrow> string \<Rightarrow> string" where
  "sha1_update h bytes = h @ bytes"

definition tid :: "(string \<Rightarrow> string) \<Rightarrow> document_record \<Rightarrow> string" where
  "tid H self =
     (let t = sha1_new (str_opt (rec_document_id self));
          t = sha1_update t (str_int (rec_sheet self));
          t = sha1_update t (str_int (rec_row_id self))
      in H t)"

subsection \<open>text_parts\<close>

text \<open>
  \<open>string_value\<close> is imported from \<open>aleph.text\<close> and is a parameter. A generator is the
  list of what it yields, with the exception that ended it, if one did.
\<close>

type_synonym gen = "pyval list \<times> error option"

definition page_text_parts :: "(pyval \<Rightarrow> string option) \<Rightarrow> document_page \<Rightarrow> gen" where
  "page_text_parts string_value self =
     (let text = string_value (PStr (page_text self))
      in if text \<noteq> None then ([PStr (page_text self)], None) else ([], None))"

text \<open>
  \<open>self.data.values()\<close> needs a dictionary: on \<open>None\<close>, which the nullable column
  allows, and on any other JSON value the attribute lookup raises.
\<close>

definition record_text_parts :: "(pyval \<Rightarrow> string option) \<Rightarrow> document_record \<Rightarrow> gen" where
  "record_text_parts string_value self =
     (case rec_data self of
        PDict kvs \<Rightarrow> (filter (\<lambda>v. string_value v \<noteq> None) (map snd kvs), None)
      | _ \<Rightarrow> ([], Some AttributeError))"

text \<open>The nested loops: the parts of each child in turn, up to the first exception.\<close>

fun chain :: "gen list \<Rightarrow> gen" where
  "chain [] = ([], None)"
| "chain ((ys, Some e) # rest) = (ys, Some e)"
| "chain ((ys, None) # rest) = (case chain rest of (zs, r) \<Rightarrow> (ys @ zs, r))"

definition text_parts :: "(pyval \<Rightarrow> string option) \<Rightarrow> db \<Rightarrow> document \<Rightarrow> gen" where
  "text_parts string_value s self =
     (if doc_type self = ''text''
      then chain (map (page_text_parts string_value) (pages s self))
      else if doc_type self = ''tabular''
      then chain (map (record_text_parts string_value) (records s self))
      else ([], None))"

definition values_of :: "pyval \<Rightarrow> pyval list" where
  "values_of d = (case d of PDict kvs \<Rightarrow> map snd kvs | _ \<Rightarrow> [])"

definition is_dict :: "pyval \<Rightarrow> bool" where
  "is_dict d = (case d of PDict kvs \<Rightarrow> True | _ \<Rightarrow> False)"

subsection \<open>Foreign keys\<close>

text \<open>
  What the columns declare: \<open>db.ForeignKey('document.id')\<close> on a nullable column holds
  when the value is \<open>NULL\<close> or the key of a stored document. The stricter reading asks
  for a key of a stored document in every row.
\<close>

definition stored_ids :: "db \<Rightarrow> int option set" where
  "stored_ids s = set (map doc_id (tbl_document s))"

definition fk_holds :: "db \<Rightarrow> int option \<Rightarrow> bool" where
  "fk_holds s v = (v = None \<or> v \<in> stored_ids s)"

definition foreign_keys_ok :: "db \<Rightarrow> bool" where
  "foreign_keys_ok s =
     (list_all (\<lambda>p. fk_holds s (page_document_id p)) (tbl_page s) \<and>
      list_all (\<lambda>r. fk_holds s (rec_document_id r)) (tbl_record s))"

definition references_one_document :: "db \<Rightarrow> bool" where
  "references_one_document s =
     (list_all (\<lambda>p. page_document_id p \<noteq> None \<and> page_document_id p \<in> stored_ids s) (tbl_page s) \<and>
      list_all (\<lambda>r. rec_document_id r \<noteq> None \<and> rec_document_id r \<in> stored_ids s) (tbl_record s))"

subsection \<open>Values for the examples\<close>

definition empty_db :: db where
  "empty_db =
     \<lparr>tbl_document = [], tbl_page = [], tbl_record = [], tbl_reference = [], record_seq = 1,
      session_new = [], calls = []\<rparr>"

definition mk_document :: "int option \<Rightarrow> string \<Rightarrow> document" where
  "mk_document k ty =
     \<lparr>doc_id = k, doc_content_hash = Some ''abc'', doc_foreign_id = None, doc_type = ty,
      doc_meta = None, doc_collection_id = Some 1, doc_created_at = Some 0,
      doc_updated_at = Some 0\<rparr>"

definition mk_page :: "int \<Rightarrow> int \<Rightarrow> string \<Rightarrow> int option \<Rightarrow> document_page" where
  "mk_page k n t d = \<lparr>page_id = k, page_number = n, page_text = t, page_document_id = d\<rparr>"

definition mk_record :: "int \<Rightarrow> int \<Rightarrow> pyval \<Rightarrow> int option \<Rightarrow> document_record" where
  "mk_record k row v d =
     \<lparr>rec_id = k, rec_sheet = 0, rec_row_id = row, rec_data = v, rec_document_id = d\<rparr>"

definition mk_reference :: "int \<Rightarrow> int option \<Rightarrow> string option \<Rightarrow> reference" where
  "mk_reference k d origin = \<lparr>ref_id = k, ref_document_id = d, ref_origin = origin\<rparr>"

text \<open>
  A \<open>Metadata\<close> to run the interface on: the dictionary itself, with the two properties
  read from their keys.
\<close>

definition str_of_py :: "pyval option \<Rightarrow> string option" where
  "str_of_py v = (case v of Some (PStr t) \<Rightarrow> Some t | _ \<Rightarrow> None)"

definition dict_metadata :: "pydict metadata_api" where
  "dict_metadata =
     \<lparr>md_from_data = (\<lambda>d. d),
      md_update = (\<lambda>m d safe. m ++ d),
      md_content_hash = (\<lambda>m. str_of_py (m ''content_hash'')),
      md_foreign_id = (\<lambda>m. str_of_py (m ''foreign_id'')),
      md_to_attr_dict = (\<lambda>m. m),
      md_to_dict = (\<lambda>m. m),
      md_to_index_dict = (\<lambda>m. m)\<rparr>"

text \<open>A store with two documents, their pages, a record and two references.\<close>

definition example_db :: db where
  "example_db = empty_db\<lparr>
      tbl_document := [mk_document (Some 7) ''text'', mk_document (Some 8) ''text''],
      tbl_page := [mk_page 1 1 ''a'' (Some 7), mk_page 2 1 ''b'' (Some 8), mk_page 3 2 ''c'' (Some 7)],
      tbl_record := [mk_record 1 0 PNone (Some 7)],
      tbl_reference := [mk_reference 1 (Some 7) (Some ''x''), mk_reference 2 (Some 8) (Some ''x'')]\<rparr>"

text \<open>A store with a text document and two tabular ones; one record holds no dictionary.\<close>

definition text_db :: db where
  "text_db = empty_db\<lparr>
      tbl_document := [mk_document (Some 7) ''text'', mk_document (Some 8) ''tabular'',
                       mk_document (Some 9) ''tabular''],
      tbl_page := [mk_page 1 1 ''first'' (Some 7), mk_page 2 2 [] (Some 7)],
      tbl_record := [mk_record 1 0 (PDict [(''a'', PStr ''x''), (''b'', PNone), (''c'', PInt 3)]) (Some 8),
                     mk_record 2 0 PNone (Some 9),
                     mk_record 3 1 (PDict [(''a'', PStr ''y'')]) (Some 9)]\<rparr>"

text \<open>A validator that asks for a title, and a string conversion that drops empty strings.\<close>

definition title_required :: "pydict \<Rightarrow> string \<Rightarrow> error + unit" where
  "title_required data sch =
     (case data ''title'' of None \<Rightarrow> Inl (ValidationError sch) | Some v \<Rightarrow> Inr ())"

definition plain_string_value :: "pyval \<Rightarrow> string option" where
  "plain_string_value v =
     (case v of
        PStr t \<Rightarrow> (if t = [] then None else Some t)
      | PInt i \<Rightarrow> Some (str_int i)
      | _ \<Rightarrow> None)"

section \<open>Properties\<close>

subsection \<open>insert_records\<close>

declare flushed.simps [simp del] leftover.simps [simp del] chunks_of.simps [simp del]

lemma flushed_append: "0 < n \<Longrightarrow> length c = n \<Longrightarrow> flushed n (c @ ys) = c # flushed n ys"
  by (subst flushed.simps) simp

lemma leftover_append: "0 < n \<Longrightarrow> length c = n \<Longrightarrow> leftover n (c @ ys) = leftover n ys"
  by (subst leftover.simps) simp

lemma flushed_short: "length xs < n \<Longrightarrow> flushed n xs = []"
  by (subst flushed.simps) simp

lemma leftover_short: "length xs < n \<Longrightarrow> leftover n xs = xs"
  by (subst leftover.simps) simp

lemma flush_test:
  "n = nat (max 1 cs) \<Longrightarrow> length chunk < n \<Longrightarrow>
   (cs \<le> int (length (chunk @ [e]))) = (length (chunk @ [e]) = n)"
  by auto

lemma insert_loop_eq:
  "n = nat (max 1 cs) \<Longrightarrow> length chunk < n \<Longrightarrow>
   insert_loop self sheet cs (enumerate k xs) chunk s =
     (leftover n (chunk @ expected_mappings self sheet k xs),
      fold bulk_insert_mappings (flushed n (chunk @ expected_mappings self sheet k xs)) s)"
proof (induction xs arbitrary: chunk k s)
  case Nil
  then show ?case
    by (simp add: expected_mappings_def flushed_short leftover_short)
next
  case (Cons x xs)
  let ?e = "record_entry self sheet k x"
  let ?E = "expected_mappings self sheet (Suc k) xs"
  have all: "chunk @ expected_mappings self sheet k (x # xs) = (chunk @ [?e]) @ ?E"
    by (simp add: expected_mappings_def)
  show ?case
  proof (cases "length (chunk @ [?e]) = n")
    case True
    have pos: "0 < n" using Cons.prems by simp
    have "insert_loop self sheet cs (enumerate k (x # xs)) chunk s =
          insert_loop self sheet cs (enumerate (Suc k) xs) [] (bulk_insert_mappings (chunk @ [?e]) s)"
      using True flush_test [OF Cons.prems, of ?e] by (simp add: Let_def)
    also have "\<dots> = (leftover n ([] @ ?E),
        fold bulk_insert_mappings (flushed n ([] @ ?E)) (bulk_insert_mappings (chunk @ [?e]) s))"
      using Cons.prems pos by (intro Cons.IH) simp_all
    finally show ?thesis
      unfolding all using pos True by (simp only: flushed_append leftover_append) simp
  next
    case False
    then have lt: "length (chunk @ [?e]) < n" using Cons.prems by simp
    have "insert_loop self sheet cs (enumerate k (x # xs)) chunk s =
          insert_loop self sheet cs (enumerate (Suc k) xs) (chunk @ [?e]) s"
      using False flush_test [OF Cons.prems, of ?e] by (simp add: Let_def)
    also have "\<dots> = (leftover n ((chunk @ [?e]) @ ?E),
        fold bulk_insert_mappings (flushed n ((chunk @ [?e]) @ ?E)) s)"
      using Cons.prems(1) lt by (rule Cons.IH)
    finally show ?thesis unfolding all .
  qed
qed

lemma chunks_of_split:
  "0 < n \<Longrightarrow> chunks_of n xs = flushed n xs @ (if leftover n xs = [] then [] else [leftover n xs])"
proof (induction n xs rule: chunks_of.induct)
  case (1 n xs)
  show ?case
  proof (cases "length xs < n")
    case True
    then show ?thesis
      by (subst chunks_of.simps) (simp add: flushed_short leftover_short)
  next
    case False
    note ge = False
    show ?thesis
    proof (cases "length xs = n")
      case True
      then have "xs \<noteq> []" using 1(2) by auto
      moreover have "flushed n xs = [xs]" using flushed_append [of n xs "[]"] True 1(2)
        by (simp add: flushed_short)
      moreover have "leftover n xs = []" using leftover_append [of n xs "[]"] True 1(2)
        by (simp add: leftover_short)
      ultimately show ?thesis using True by (subst chunks_of.simps) simp
    next
      case False
      then have gt: "n < length xs" using ge by simp
      then have ne: "xs \<noteq> []" by auto
      have xs: "xs = take n xs @ drop n xs" by simp
      have len: "length (take n xs) = n" using gt by simp
      have f: "flushed n xs = take n xs # flushed n (drop n xs)"
        using flushed_append [OF 1(2) len, of "drop n xs"] by simp
      have l: "leftover n xs = leftover n (drop n xs)"
        using leftover_append [OF 1(2) len, of "drop n xs"] by simp
      have "chunks_of n xs = take n xs # chunks_of n (drop n xs)"
        using gt ne 1(2) by (subst chunks_of.simps) simp
      also have "chunks_of n (drop n xs) =
          flushed n (drop n xs) @ (if leftover n (drop n xs) = [] then [] else [leftover n (drop n xs)])"
        using ne gt 1(2) by (intro 1(1)) simp_all
      finally show ?thesis by (simp add: f l)
    qed
  qed
qed

lemma calls_fold_bulk:
  "calls (fold bulk_insert_mappings chs s) = calls s @ map BulkInsertMappings chs"
  by (induction chs arbitrary: s) (simp_all add: bulk_insert_mappings_def log_call_def)

lemma mapping_of_rows: "map mapping_of (rows_of_mappings k ms) = ms"
  by (induction ms arbitrary: k) (simp_all add: mapping_of_def)

lemma records_fold_bulk:
  "map mapping_of (tbl_record (fold bulk_insert_mappings chs s)) =
     map mapping_of (tbl_record s) @ concat chs"
  by (induction chs arbitrary: s)
     (simp_all add: bulk_insert_mappings_def log_call_def mapping_of_rows)

lemma insert_records_eq:
  "insert_records self sheet iterable cs s =
     fold bulk_insert_mappings
       (chunks_of (nat (max 1 cs)) (expected_mappings self sheet 0 iterable)) s"
proof -
  let ?n = "nat (max 1 cs)"
  have pos: "0 < ?n" by simp
  have "insert_loop self sheet cs (enumerate 0 iterable) [] s =
     (leftover ?n ([] @ expected_mappings self sheet 0 iterable),
      fold bulk_insert_mappings (flushed ?n ([] @ expected_mappings self sheet 0 iterable)) s)"
    using pos by (intro insert_loop_eq) simp_all
  then show ?thesis
    by (simp add: insert_records_def chunks_of_split [OF pos])
qed

lemma concat_chunks_of: "concat (chunks_of n xs) = xs"
  by (induction n xs rule: chunks_of.induct) (subst chunks_of.simps, simp)

lemma chunks_of_bound: "0 < n \<Longrightarrow> ch \<in> set (chunks_of n xs) \<Longrightarrow> ch \<noteq> [] \<and> length ch \<le> n"
  by (induction n xs rule: chunks_of.induct) (subst (asm) (2) chunks_of.simps, auto split: if_splits)

lemma chunks_within_chunks_of:
  "0 < n \<Longrightarrow> chunks_within (int n) (chunks_of n xs)"
  using chunks_of_bound [of n _ xs] by (auto simp: chunks_within_def list_all_iff)

lemma expected_nth:
  "i < length iterable \<Longrightarrow>
   expected_mappings self sheet k iterable ! i =
     \<lparr>m_document_id = doc_id self, m_row_id = int (k + i), m_sheet = sheet, m_data = iterable ! i\<rparr>"
  by (simp add: expected_mappings_def record_entry_def nth_enumerate_eq)

text \<open>
  Claim C2, as amended. \<open>insert_records\<close> makes one \<open>bulk_insert_mappings\<close> call per
  chunk and no other call; the chunks are the consecutive pieces of the list of mappings,
  one mapping per element of the iterable in iteration order, the \<open>i\<close>-th with
  \<open>row_id = i\<close>, the given sheet, the document's id and the element as data; their
  concatenation is that list, so every mapping is inserted exactly once, the last, shorter
  chunk included; every chunk is non-empty and has at most \<open>max(1, chunk_size)\<close> rows
  (\<open>chunk_size\<close> rows when \<open>chunk_size \<ge> 1\<close>, 1000 by default); the rows appended to
  the table are these mappings, in order.
\<close>

theorem insert_records_chunks:
  "calls (insert_records self sheet iterable chunk_size s) =
     calls s @ map BulkInsertMappings
       (chunks_of (nat (max 1 chunk_size)) (expected_mappings self sheet 0 iterable))
   \<and> concat (chunks_of (nat (max 1 chunk_size)) (expected_mappings self sheet 0 iterable)) =
       expected_mappings self sheet 0 iterable
   \<and> chunks_within (max 1 chunk_size)
       (chunks_of (nat (max 1 chunk_size)) (expected_mappings self sheet 0 iterable))
   \<and> map mapping_of (tbl_record (insert_records self sheet iterable chunk_size s)) =
       map mapping_of (tbl_record s) @ expected_mappings self sheet 0 iterable
   \<and> length (expected_mappings self sheet 0 iterable) = length iterable
   \<and> (\<forall>i < length iterable.
        expected_mappings self sheet 0 iterable ! i =
          \<lparr>m_document_id = doc_id self, m_row_id = int i, m_sheet = sheet,
           m_data = iterable ! i\<rparr>)
   \<and> calls (insert_records_default self sheet iterable s) =
       calls s @ map BulkInsertMappings (chunks_of 1000 (expected_mappings self sheet 0 iterable))"
proof -
  let ?n = "nat (max 1 chunk_size)"
  let ?ms = "expected_mappings self sheet 0 iterable"
  have pos: "0 < ?n" by simp
  have a: "calls (insert_records self sheet iterable chunk_size s) =
      calls s @ map BulkInsertMappings (chunks_of ?n ?ms)"
    by (simp only: insert_records_eq calls_fold_bulk)
  have b: "concat (chunks_of ?n ?ms) = ?ms"
    by (rule concat_chunks_of)
  have "chunks_within (int ?n) (chunks_of ?n ?ms)"
    using pos by (rule chunks_within_chunks_of)
  moreover have "int ?n = max 1 chunk_size"
    by simp
  ultimately have c: "chunks_within (max 1 chunk_size) (chunks_of ?n ?ms)"
    by (simp only:)
  have d: "map mapping_of (tbl_record (insert_records self sheet iterable chunk_size s)) =
      map mapping_of (tbl_record s) @ ?ms"
    by (simp only: insert_records_eq records_fold_bulk concat_chunks_of)
  have e: "length ?ms = length iterable"
    by (simp add: expected_mappings_def)
  have f: "\<forall>i < length iterable. ?ms ! i =
      \<lparr>m_document_id = doc_id self, m_row_id = int i, m_sheet = sheet, m_data = iterable ! i\<rparr>"
    using expected_nth [of _ iterable self sheet 0] by simp
  have g: "calls (insert_records_default self sheet iterable s) =
      calls s @ map BulkInsertMappings (chunks_of 1000 ?ms)"
    by (simp add: insert_records_default_def insert_records_eq calls_fold_bulk)
  from a b c d e f g show ?thesis by blast
qed

text \<open>Three payloads in chunks of two: one full chunk, then the rest.\<close>

theorem insert_records_chunks_witness:
  "calls (insert_records (mk_document (Some 7) ''tabular'') 0 [PInt 10, PInt 20, PInt 30] 2 empty_db) =
     [BulkInsertMappings
        [\<lparr>m_document_id = Some 7, m_row_id = 0, m_sheet = 0, m_data = PInt 10\<rparr>,
         \<lparr>m_document_id = Some 7, m_row_id = 1, m_sheet = 0, m_data = PInt 20\<rparr>],
      BulkInsertMappings
        [\<lparr>m_document_id = Some 7, m_row_id = 2, m_sheet = 0, m_data = PInt 30\<rparr>]]
   \<and> expected_mappings (mk_document (Some 7) ''tabular'') 0 0 [PInt 10, PInt 20, PInt 30] ! 2 =
       \<lparr>m_document_id = Some 7, m_row_id = 2, m_sheet = 0, m_data = PInt 30\<rparr>"
proof -
  let ?d = "mk_document (Some 7) ''tabular''"
  let ?xs = "[PInt 10, PInt 20, PInt 30]"
  have n: "nat (max 1 (2::int)) = 2" by simp
  have ms: "expected_mappings ?d 0 0 ?xs =
      [\<lparr>m_document_id = Some 7, m_row_id = 0, m_sheet = 0, m_data = PInt 10\<rparr>,
       \<lparr>m_document_id = Some 7, m_row_id = 1, m_sheet = 0, m_data = PInt 20\<rparr>,
       \<lparr>m_document_id = Some 7, m_row_id = 2, m_sheet = 0, m_data = PInt 30\<rparr>]"
    by (simp add: expected_mappings_def record_entry_def mk_document_def)
  have ch: "chunks_of 2 [a, b, c] = [[a, b], [c]]" for a b c :: record_mapping
    by (simp add: chunks_of.simps)
  have "calls (insert_records ?d 0 ?xs 2 empty_db) =
      calls empty_db @ map BulkInsertMappings (chunks_of (nat (max 1 2)) (expected_mappings ?d 0 0 ?xs))"
    using insert_records_chunks [of ?d 0 ?xs 2 empty_db] by blast
  then show ?thesis
    unfolding n ms ch by (simp add: empty_db_def)
qed

text \<open>
  Claim C2 as stated bounds every chunk by \<open>chunk_size\<close>. With \<open>chunk_size = 0\<close> the
  test \<open>len(chunk) >= chunk_size\<close> holds after the first append, and a chunk of one row
  is inserted.
\<close>

theorem insert_records_chunk_size_counterexample:
  "calls (insert_records (mk_document (Some 7) ''tabular'') 0 [PNone] 0 empty_db) =
     [BulkInsertMappings [\<lparr>m_document_id = Some 7, m_row_id = 0, m_sheet = 0, m_data = PNone\<rparr>]]
   \<and> \<not> chunks_within 0
        (bulk_inserts (calls (insert_records (mk_document (Some 7) ''tabular'') 0 [PNone] 0 empty_db)))"
  by (simp add: insert_records_def bulk_insert_mappings_def log_call_def record_entry_def
      mk_document_def empty_db_def bulk_inserts_def chunks_within_def)

subsection \<open>Deletion\<close>

lemma delete_references_tables:
  "tbl_reference (delete_references self origin s) =
     filter (\<lambda>r. \<not> (ref_document_id r = doc_id self \<and> (origin = None \<or> ref_origin r = origin)))
       (tbl_reference s)"
  by (cases origin)
     (simp_all add: delete_references_def refresh_def log_call_def delete_rows_def filter_q_def
        query_all_def Let_def)

lemma delete_references_frame:
  "tbl_document (delete_references self origin s) = tbl_document s"
  "tbl_page (delete_references self origin s) = tbl_page s"
  "tbl_record (delete_references self origin s) = tbl_record s"
  "calls (delete_references self origin s) =
     calls s @ [QueryDelete ReferenceTable (doc_id self) origin, Refresh (doc_id self)]"
  by (simp_all add: delete_references_def refresh_def log_call_def Let_def)

lemma delete_records_tables:
  "tbl_record (delete_records self s) = filter (\<lambda>r. rec_document_id r \<noteq> doc_id self) (tbl_record s)"
  "tbl_document (delete_records self s) = tbl_document s"
  "tbl_page (delete_records self s) = tbl_page s"
  "tbl_reference (delete_records self s) = tbl_reference s"
  "calls (delete_records self s) =
     calls s @ [QueryDelete RecordTable (doc_id self) None, Refresh (doc_id self)]"
  by (simp_all add: delete_records_def refresh_def log_call_def delete_rows_def filter_q_def
      query_all_def Let_def)

lemma delete_pages_tables:
  "tbl_page (delete_pages self s) = filter (\<lambda>p. page_document_id p \<noteq> doc_id self) (tbl_page s)"
  "tbl_document (delete_pages self s) = tbl_document s"
  "tbl_record (delete_pages self s) = tbl_record s"
  "tbl_reference (delete_pages self s) = tbl_reference s"
  "calls (delete_pages self s) =
     calls s @ [QueryDelete PageTable (doc_id self) None, Refresh (doc_id self)]"
  by (simp_all add: delete_pages_def refresh_def log_call_def delete_rows_def filter_q_def
      query_all_def Let_def)

lemma session_delete_tables:
  "tbl_document (session_delete self s) = filter (\<lambda>d. doc_id d \<noteq> doc_id self) (tbl_document s)"
  "tbl_page (session_delete self s) =
     filter (\<lambda>p. doc_id self = None \<or> page_document_id p \<noteq> doc_id self) (tbl_page s)"
  "tbl_record (session_delete self s) =
     filter (\<lambda>r. doc_id self = None \<or> rec_document_id r \<noteq> doc_id self) (tbl_record s)"
  "tbl_reference (session_delete self s) = tbl_reference s"
  "calls (session_delete self s) = calls s @ [SessionDelete (doc_id self)]"
  by (auto simp: session_delete_def log_call_def pages_def records_def split: option.splits
      intro: filter_cong)

lemma cleaned_tables:
  "tbl_document (cleaned self s) = tbl_document s"
  "tbl_reference (cleaned self s) = filter (\<lambda>r. ref_document_id r \<noteq> doc_id self) (tbl_reference s)"
  "tbl_record (cleaned self s) = filter (\<lambda>r. rec_document_id r \<noteq> doc_id self) (tbl_record s)"
  "tbl_page (cleaned self s) = filter (\<lambda>p. page_document_id p \<noteq> doc_id self) (tbl_page s)"
  "calls (cleaned self s) =
     calls s @ [QueryDelete ReferenceTable (doc_id self) None, Refresh (doc_id self),
                QueryDelete RecordTable (doc_id self) None, Refresh (doc_id self),
                QueryDelete PageTable (doc_id self) None, Refresh (doc_id self)]"
  by (simp_all add: cleaned_def delete_pages_tables delete_records_tables delete_references_tables
      delete_references_frame)

lemma delete_cleaned: "delete self deleted_at s = session_delete self (cleaned self s)"
  by (simp add: delete_def cleaned_def)

lemma filter_twice_same: "filter (\<lambda>x. A \<or> P x) (filter P xs) = filter P xs"
  by (induction xs) auto

lemma delete_tables:
  "tbl_document (delete self deleted_at s) = filter (\<lambda>d. doc_id d \<noteq> doc_id self) (tbl_document s)"
  "tbl_reference (delete self deleted_at s) =
     filter (\<lambda>r. ref_document_id r \<noteq> doc_id self) (tbl_reference s)"
  "tbl_record (delete self deleted_at s) =
     filter (\<lambda>r. rec_document_id r \<noteq> doc_id self) (tbl_record s)"
  "tbl_page (delete self deleted_at s) =
     filter (\<lambda>p. page_document_id p \<noteq> doc_id self) (tbl_page s)"
  by (auto simp: delete_cleaned session_delete_tables cleaned_tables intro!: filter_cong)



text \<open>
  Claim C10. With an origin, \<open>delete_references\<close> removes exactly the references whose
  \<open>document_id\<close> is the document's id and whose origin is the given one, and keeps every
  other reference, in order; without an origin it removes every reference of the document.
  The other tables are not touched.
\<close>

theorem delete_references_exact:
  "tbl_reference (delete_references self (Some origin) s) =
     filter (\<lambda>r. \<not> (ref_document_id r = doc_id self \<and> ref_origin r = Some origin))
       (tbl_reference s)
   \<and> tbl_reference (delete_references self None s) =
       filter (\<lambda>r. ref_document_id r \<noteq> doc_id self) (tbl_reference s)
   \<and> tbl_document (delete_references self any s) = tbl_document s
   \<and> tbl_page (delete_references self any s) = tbl_page s
   \<and> tbl_record (delete_references self any s) = tbl_record s"
  by (simp add: delete_references_tables delete_references_frame)

text \<open>Four references: one matches document and origin, three of them match the document.\<close>

theorem delete_references_exact_witness:
  "tbl_reference (delete_references (mk_document (Some 7) ''text'') (Some ''x'')
      (empty_db\<lparr>tbl_reference :=
         [mk_reference 1 (Some 7) (Some ''x''), mk_reference 2 (Some 7) (Some ''y''),
          mk_reference 3 (Some 8) (Some ''x''), mk_reference 4 (Some 7) None]\<rparr>)) =
     [mk_reference 2 (Some 7) (Some ''y''), mk_reference 3 (Some 8) (Some ''x''),
      mk_reference 4 (Some 7) None]
   \<and> tbl_reference (delete_references (mk_document (Some 7) ''text'') None
      (empty_db\<lparr>tbl_reference :=
         [mk_reference 1 (Some 7) (Some ''x''), mk_reference 2 (Some 7) (Some ''y''),
          mk_reference 3 (Some 8) (Some ''x''), mk_reference 4 (Some 7) None]\<rparr>)) =
     [mk_reference 3 (Some 8) (Some ''x'')]"
proof -
  let ?d = "mk_document (Some 7) ''text''"
  let ?s = "empty_db\<lparr>tbl_reference :=
         [mk_reference 1 (Some 7) (Some ''x''), mk_reference 2 (Some 7) (Some ''y''),
          mk_reference 3 (Some 8) (Some ''x''), mk_reference 4 (Some 7) None]\<rparr>"
  have id: "doc_id ?d = Some 7" by (simp add: mk_document_def)
  note t = delete_references_exact [of ?d "''x''" ?s]
  from t have "tbl_reference (delete_references ?d (Some ''x'') ?s) =
     filter (\<lambda>r. \<not> (ref_document_id r = doc_id ?d \<and> ref_origin r = Some ''x''))
       (tbl_reference ?s)" by blast
  then have a: "tbl_reference (delete_references ?d (Some ''x'') ?s) =
     [mk_reference 2 (Some 7) (Some ''y''), mk_reference 3 (Some 8) (Some ''x''),
      mk_reference 4 (Some 7) None]"
    unfolding id by (simp add: mk_reference_def)
  from t have "tbl_reference (delete_references ?d None ?s) =
       filter (\<lambda>r. ref_document_id r \<noteq> doc_id ?d) (tbl_reference ?s)" by blast
  then have b: "tbl_reference (delete_references ?d None ?s) = [mk_reference 3 (Some 8) (Some ''x'')]"
    unfolding id by (simp add: mk_reference_def)
  from a b show ?thesis by blast
qed

subsection \<open>The pages collection\<close>




subsection \<open>Foreign keys\<close>

lemma fold_bulk_frame:
  "tbl_document (fold bulk_insert_mappings chs s) = tbl_document s"
  "tbl_page (fold bulk_insert_mappings chs s) = tbl_page s"
  by (induction chs arbitrary: s) (simp_all add: bulk_insert_mappings_def log_call_def)

lemma document_id_of_mapping: "map m_document_id (map mapping_of rs) = map rec_document_id rs"
  by (simp add: mapping_of_def)

lemma expected_document_id:
  "m \<in> set (expected_mappings self sheet k iterable) \<Longrightarrow> m_document_id m = doc_id self"
  by (auto simp: expected_mappings_def record_entry_def)

lemma insert_records_document_ids:
  "map rec_document_id (tbl_record (insert_records self sheet iterable cs s)) =
     map rec_document_id (tbl_record s) @ replicate (length iterable) (doc_id self)"
proof -
  let ?ms = "expected_mappings self sheet 0 iterable"
  have "map m_document_id (map mapping_of (tbl_record (insert_records self sheet iterable cs s))) =
      map m_document_id (map mapping_of (tbl_record s) @ ?ms)"
    by (simp only: insert_records_eq records_fold_bulk concat_chunks_of)
  moreover have "map m_document_id ?ms = map (\<lambda>m. doc_id self) ?ms"
    by (rule map_cong) (simp_all add: expected_document_id)
  then have "map m_document_id ?ms = replicate (length iterable) (doc_id self)"
    by (simp add: map_replicate_const expected_mappings_def)
  ultimately show ?thesis
    by (simp add: document_id_of_mapping del: map_map)
qed

lemma insert_records_frame:
  "tbl_document (insert_records self sheet iterable cs s) = tbl_document s"
  "tbl_page (insert_records self sheet iterable cs s) = tbl_page s"
  by (simp_all add: insert_records_eq fold_bulk_frame)

lemma foreign_keys_ok_iff:
  "foreign_keys_ok s \<longleftrightarrow>
     (\<forall>v \<in> set (map page_document_id (tbl_page s)). fk_holds s v) \<and>
     (\<forall>v \<in> set (map rec_document_id (tbl_record s)). fk_holds s v)"
  by (auto simp: foreign_keys_ok_def list_all_iff)

lemma fk_holds_cong: "tbl_document s' = tbl_document s \<Longrightarrow> fk_holds s' v = fk_holds s v"
  by (simp add: fk_holds_def stored_ids_def)

lemma fk_holds_after_delete:
  "fk_holds s v \<Longrightarrow> v \<noteq> doc_id self \<Longrightarrow>
   tbl_document s' = filter (\<lambda>d. doc_id d \<noteq> doc_id self) (tbl_document s) \<Longrightarrow> fk_holds s' v"
  by (auto simp: fk_holds_def stored_ids_def)

text \<open>
  Claim C5, as amended. The \<open>document_id\<close> of every page and record is null or the id of a
  stored document. \<open>delete\<close>, the three bulk deletions, and \<open>insert_records\<close> for a
  document that is stored or has no id yet keep it so.
\<close>

theorem foreign_keys_preserved:
  assumes "foreign_keys_ok s"
  shows "foreign_keys_ok (delete self deleted_at s)
    \<and> foreign_keys_ok (delete_pages self s)
    \<and> foreign_keys_ok (delete_records self s)
    \<and> foreign_keys_ok (delete_references self origin s)
    \<and> (fk_holds s (doc_id self) \<longrightarrow>
         foreign_keys_ok (insert_records self sheet iterable chunk_size s))"
proof (intro conjI impI)
  show "foreign_keys_ok (delete self deleted_at s)"
    using assms
    by (auto simp: foreign_keys_ok_iff delete_tables
        intro: fk_holds_after_delete [where s = s and self = self])
  show "foreign_keys_ok (delete_pages self s)"
    using assms
    by (auto simp: foreign_keys_ok_iff delete_pages_tables fk_holds_cong [of "delete_pages self s" s])
  show "foreign_keys_ok (delete_records self s)"
    using assms
    by (auto simp: foreign_keys_ok_iff delete_records_tables
        fk_holds_cong [of "delete_records self s" s])
  show "foreign_keys_ok (delete_references self origin s)"
    using assms
    by (auto simp: foreign_keys_ok_iff delete_references_frame
        fk_holds_cong [of "delete_references self origin s" s])
  assume "fk_holds s (doc_id self)"
  then show "foreign_keys_ok (insert_records self sheet iterable chunk_size s)"
    using assms
    by (auto simp: foreign_keys_ok_iff insert_records_frame insert_records_document_ids
        fk_holds_cong [of "insert_records self sheet iterable chunk_size s" s])
qed

text \<open>The example store, after a deletion and after an insertion.\<close>

theorem foreign_keys_preserved_witness:
  "foreign_keys_ok example_db
   \<and> foreign_keys_ok (delete (mk_document (Some 7) ''text'') None example_db)
   \<and> foreign_keys_ok (insert_records (mk_document (Some 8) ''text'') 0 [PNone] 1000 example_db)"
proof -
  have ok: "foreign_keys_ok example_db"
    by (simp add: foreign_keys_ok_def fk_holds_def stored_ids_def example_db_def empty_db_def
        mk_document_def mk_page_def mk_record_def)
  have h: "fk_holds example_db (doc_id (mk_document (Some 8) ''text''))"
    by (simp add: fk_holds_def stored_ids_def example_db_def mk_document_def)
  show ?thesis
    using ok h
      foreign_keys_preserved [OF ok, of "mk_document (Some 7) ''text''" None]
      foreign_keys_preserved [OF ok, of "mk_document (Some 8) ''text''" None None 0 "[PNone]" 1000]
    by blast
qed

text \<open>
  Claim C5 as stated asks for a non-null \<open>document_id\<close>. \<open>insert_records\<close> on a
  document that was never flushed writes its \<open>None\<close> id into the row.
\<close>

theorem null_document_id_counterexample:
  "tbl_record (insert_records (mk_document None ''tabular'') 0 [PNone] 1000 empty_db) =
     [\<lparr>rec_id = 1, rec_sheet = 0, rec_row_id = 0, rec_data = PNone, rec_document_id = None\<rparr>]
   \<and> \<not> references_one_document
         (insert_records (mk_document None ''tabular'') 0 [PNone] 1000 empty_db)"
  by (simp add: insert_records_def bulk_insert_mappings_def log_call_def record_entry_def
      mk_document_def empty_db_def references_one_document_def)

subsection \<open>update, serialisation and the meta property\<close>

lemma meta_get_columns:
  "doc_id (snd (meta_get M self)) = doc_id self"
  "doc_content_hash (snd (meta_get M self)) = doc_content_hash self"
  "doc_foreign_id (snd (meta_get M self)) = doc_foreign_id self"
  "doc_type (snd (meta_get M self)) = doc_type self"
  "doc_collection_id (snd (meta_get M self)) = doc_collection_id self"
  "doc_created_at (snd (meta_get M self)) = doc_created_at self"
  "doc_updated_at (snd (meta_get M self)) = doc_updated_at self"
  by (simp_all add: meta_get_def Let_def)

lemma meta_get_data:
  "fst (meta_get M self) =
     md_from_data M
       ((case doc_meta self of None \<Rightarrow> Map.empty | Some d \<Rightarrow> d)
          (''content_hash'' \<mapsto> py_of_str (doc_content_hash self),
           ''foreign_id'' \<mapsto> py_of_str (doc_foreign_id self)))"
  by (simp add: meta_get_def Let_def)

text \<open>
  Claim C4. \<open>update\<close> validates the data against \<open>document.json#\<close> first. When the
  validation raises, the exception is the outcome and the document and the session are as
  they were. When it passes, the data is merged into the metadata read from the document,
  the merged metadata is stored in the document, and the document is added to the session.
\<close>

theorem update_validates_first:
  "schema = ''document.json#''
   \<and> (validate data schema = Inl e \<longrightarrow> update validate M self data s = (Inl e, self, s))
   \<and> (validate data schema = Inr () \<longrightarrow>
        fst (update validate M self data s) = Inr ()
        \<and> doc_meta (fst (snd (update validate M self data s))) =
            Some (md_to_attr_dict M (md_update M
              (md_from_data M
                 ((case doc_meta self of None \<Rightarrow> Map.empty | Some d \<Rightarrow> d)
                    (''content_hash'' \<mapsto> py_of_str (doc_content_hash self),
                     ''foreign_id'' \<mapsto> py_of_str (doc_foreign_id self))))
              data True))
        \<and> doc_id (fst (snd (update validate M self data s))) = doc_id self
        \<and> session_new (snd (snd (update validate M self data s))) =
            session_new s @ [fst (snd (update validate M self data s))]
        \<and> calls (snd (snd (update validate M self data s))) = calls s @ [SessionAdd (doc_id self)])"
proof (intro conjI impI)
  show "schema = ''document.json#''"
    by (rule schema_def)
next
  assume "validate data schema = Inl e"
  then show "update validate M self data s = (Inl e, self, s)"
    by (simp add: update_def)
next
  assume ok: "validate data schema = Inr ()"
  obtain meta self1 where g: "meta_get M self = (meta, self1)"
    by (cases "meta_get M self")
  have meta: "meta = md_from_data M
       ((case doc_meta self of None \<Rightarrow> Map.empty | Some d \<Rightarrow> d)
          (''content_hash'' \<mapsto> py_of_str (doc_content_hash self),
           ''foreign_id'' \<mapsto> py_of_str (doc_foreign_id self)))"
    using meta_get_data [of M self] g by simp
  have id1: "doc_id self1 = doc_id self"
    using meta_get_columns(1) [of M self] g by simp
  have u: "update validate M self data s =
      (Inr (), meta_set M (MetadataObj (md_update M meta data True)) self1,
       session_add (meta_set M (MetadataObj (md_update M meta data True)) self1) s)"
    using ok g by (simp add: update_def Let_def)
  show "fst (update validate M self data s) = Inr ()"
    by (simp add: u)
  show "doc_meta (fst (snd (update validate M self data s))) =
            Some (md_to_attr_dict M (md_update M
              (md_from_data M
                 ((case doc_meta self of None \<Rightarrow> Map.empty | Some d \<Rightarrow> d)
                    (''content_hash'' \<mapsto> py_of_str (doc_content_hash self),
                     ''foreign_id'' \<mapsto> py_of_str (doc_foreign_id self))))
              data True))"
    by (simp add: u meta meta_set_def)
  show "doc_id (fst (snd (update validate M self data s))) = doc_id self"
    by (simp add: u meta_set_def id1)
  show "session_new (snd (snd (update validate M self data s))) =
            session_new s @ [fst (snd (update validate M self data s))]"
    by (simp add: u session_add_def log_call_def)
  show "calls (snd (snd (update validate M self data s))) = calls s @ [SessionAdd (doc_id self)]"
    by (simp add: u session_add_def log_call_def meta_set_def id1)
qed

text \<open>An empty update is rejected and changes nothing; one with a title is stored.\<close>

theorem update_validates_first_witness:
  "update title_required dict_metadata (mk_document (Some 7) ''text'') Map.empty empty_db =
     (Inl (ValidationError ''document.json#''), mk_document (Some 7) ''text'', empty_db)
   \<and> fst (update title_required dict_metadata (mk_document (Some 7) ''text'')
            [''title'' \<mapsto> PStr ''t''] empty_db) = Inr ()
   \<and> calls (snd (snd (update title_required dict_metadata (mk_document (Some 7) ''text'')
            [''title'' \<mapsto> PStr ''t''] empty_db))) = [SessionAdd (Some 7)]"
proof -
  let ?d = "mk_document (Some 7) ''text''"
  have bad: "title_required Map.empty schema = Inl (ValidationError ''document.json#'')"
    by (simp add: title_required_def schema_def)
  have good: "title_required [''title'' \<mapsto> PStr ''t''] schema = Inr ()"
    by (simp add: title_required_def)
  have id: "doc_id ?d = Some 7" by (simp add: mk_document_def)
  have c: "calls empty_db = []" by (simp add: empty_db_def)
  show ?thesis
    using bad good
      update_validates_first [of title_required Map.empty "ValidationError ''document.json#''"
        dict_metadata ?d empty_db]
      update_validates_first [of title_required "[''title'' \<mapsto> PStr ''t'']" "ValidationError []"
        dict_metadata ?d empty_db]
    by (simp add: id c)
qed

lemma add_to_dict_keys:
  "add_to_dict req self data ''id'' = Some (py_of_int (doc_id self))"
  "add_to_dict req self data ''type'' = Some (PStr (doc_type self))"
  "add_to_dict req self data ''collection_id'' = Some (py_of_int (doc_collection_id self))"
  "add_to_dict req self data ''created_at'' = Some (py_of_time (doc_created_at self))"
  "add_to_dict req self data ''updated_at'' = Some (py_of_time (doc_updated_at self))"
  "add_to_dict req self data ''public'' =
     Some (case collection_public req (doc_collection_id self) of Inl e \<Rightarrow> PNone | Inr v \<Rightarrow> v)"
  by (simp_all add: add_to_dict_def Let_def map_add_def split: sum.splits)

text \<open>
  Claim C6. The dictionaries of \<open>to_dict\<close> and \<open>to_index_dict\<close> hold the keys \<open>id\<close>,
  \<open>type\<close>, \<open>collection_id\<close>, \<open>created_at\<close>, \<open>updated_at\<close> with the values of the
  columns, whatever the metadata put under them, and the key \<open>public\<close>, which is \<open>None\<close>
  when there is no request or the authorisation lookup raises.
\<close>

theorem to_dict_orm_fields:
  "fst (to_dict M req self) ''id'' = Some (py_of_int (doc_id self))
   \<and> fst (to_dict M req self) ''type'' = Some (PStr (doc_type self))
   \<and> fst (to_dict M req self) ''collection_id'' = Some (py_of_int (doc_collection_id self))
   \<and> fst (to_dict M req self) ''created_at'' = Some (py_of_time (doc_created_at self))
   \<and> fst (to_dict M req self) ''updated_at'' = Some (py_of_time (doc_updated_at self))
   \<and> fst (to_dict M req self) ''public'' =
       Some (case collection_public req (doc_collection_id self) of Inl e \<Rightarrow> PNone | Inr v \<Rightarrow> v)
   \<and> fst (to_index_dict M req self) ''id'' = Some (py_of_int (doc_id self))
   \<and> fst (to_index_dict M req self) ''type'' = Some (PStr (doc_type self))
   \<and> fst (to_index_dict M req self) ''collection_id'' = Some (py_of_int (doc_collection_id self))
   \<and> fst (to_index_dict M req self) ''created_at'' = Some (py_of_time (doc_created_at self))
   \<and> fst (to_index_dict M req self) ''updated_at'' = Some (py_of_time (doc_updated_at self))
   \<and> fst (to_index_dict M req self) ''public'' =
       Some (case collection_public req (doc_collection_id self) of Inl e \<Rightarrow> PNone | Inr v \<Rightarrow> v)
   \<and> (req = None \<longrightarrow>
        fst (to_dict M req self) ''public'' = Some PNone
        \<and> fst (to_index_dict M req self) ''public'' = Some PNone)
   \<and> (collection_public req (doc_collection_id self) = Inl e \<longrightarrow>
        fst (to_dict M req self) ''public'' = Some PNone
        \<and> fst (to_index_dict M req self) ''public'' = Some PNone)"
proof -
  obtain meta self1 where g: "meta_get M self = (meta, self1)"
    by (cases "meta_get M self")
  have cols: "doc_id self1 = doc_id self" "doc_type self1 = doc_type self"
    "doc_collection_id self1 = doc_collection_id self"
    "doc_created_at self1 = doc_created_at self" "doc_updated_at self1 = doc_updated_at self"
    using meta_get_columns [of M self] g by simp_all
  have d: "fst (to_dict M req self) = add_to_dict req self1 (md_to_dict M meta)"
    by (simp add: to_dict_def g)
  have i: "fst (to_index_dict M req self) = add_to_dict req self1 (md_to_index_dict M meta)"
    by (simp add: to_index_dict_def g)
  have none: "req = None \<Longrightarrow> collection_public req (doc_collection_id self) = Inl RuntimeError"
    by (simp add: collection_public_def)
  show ?thesis
    unfolding d i add_to_dict_keys cols using none by (auto split: sum.splits)
qed

text \<open>No request, a lookup that raises, and a lookup that answers.\<close>

theorem to_dict_orm_fields_witness:
  "fst (to_dict dict_metadata None (mk_document (Some 7) ''text'')) ''public'' = Some PNone
   \<and> fst (to_dict dict_metadata None (mk_document (Some 7) ''text'')) ''id'' = Some (PInt 7)
   \<and> fst (to_index_dict dict_metadata (Some (\<lambda>c. Inl (OtherError ''denied'')))
        (mk_document (Some 7) ''text'')) ''public'' = Some PNone
   \<and> fst (to_index_dict dict_metadata (Some (\<lambda>c. Inr (PBool True)))
        (mk_document (Some 7) ''text'')) ''public'' = Some (PBool True)"
proof -
  let ?d = "mk_document (Some 7) ''text''"
  have id: "py_of_int (doc_id ?d) = PInt 7"
    by (simp add: mk_document_def py_of_int_def)
  have l: "collection_public (Some (\<lambda>c. Inl (OtherError ''denied''))) (doc_collection_id ?d) =
      Inl (OtherError ''denied'')"
    by (simp add: collection_public_def)
  have r: "collection_public (Some (\<lambda>c. Inr (PBool True))) (doc_collection_id ?d) = Inr (PBool True)"
    by (simp add: collection_public_def)
  note n = to_dict_orm_fields [of dict_metadata None ?d RuntimeError]
  note f = to_dict_orm_fields [of dict_metadata "Some (\<lambda>c. Inl (OtherError ''denied''))" ?d
        "OtherError ''denied''"]
  note g = to_dict_orm_fields [of dict_metadata "Some (\<lambda>c. Inr (PBool True))" ?d RuntimeError]
  from n have a: "fst (to_dict dict_metadata None ?d) ''public'' = Some PNone" by blast
  from n have "fst (to_dict dict_metadata None ?d) ''id'' = Some (py_of_int (doc_id ?d))" by blast
  then have b: "fst (to_dict dict_metadata None ?d) ''id'' = Some (PInt 7)"
    unfolding id .
  from f l have c: "fst (to_index_dict dict_metadata (Some (\<lambda>c. Inl (OtherError ''denied''))) ?d)
      ''public'' = Some PNone" by blast
  from g have "fst (to_index_dict dict_metadata (Some (\<lambda>c. Inr (PBool True))) ?d) ''public'' =
      Some (case collection_public (Some (\<lambda>c. Inr (PBool True))) (doc_collection_id ?d) of
              Inl e \<Rightarrow> PNone | Inr v \<Rightarrow> v)" by blast
  then have d: "fst (to_index_dict dict_metadata (Some (\<lambda>c. Inr (PBool True))) ?d) ''public'' =
      Some (PBool True)"
    unfolding r by simp
  from a b c d show ?thesis by blast
qed

subsection \<open>tid\<close>

text \<open>
  Claim C7. Two records that agree on \<open>document_id\<close>, \<open>sheet\<close> and \<open>row_id\<close> have the
  same \<open>tid\<close>: it is the digest of the three values written one after the other.
\<close>

theorem tid_deterministic:
  assumes "rec_document_id a = rec_document_id b"
    and "rec_sheet a = rec_sheet b"
    and "rec_row_id a = rec_row_id b"
  shows "tid H a = tid H b
    \<and> tid H a = H (str_opt (rec_document_id a) @ str_int (rec_sheet a) @ str_int (rec_row_id a))"
  using assms by (simp add: tid_def sha1_new_def sha1_update_def)

text \<open>Two rows with different keys and payloads, and a digest that shows its input.\<close>

theorem tid_deterministic_witness:
  "tid rev (mk_record 1 12 PNone (Some 7)) = tid rev (mk_record 2 12 (PInt 5) (Some 7))
   \<and> tid rev (mk_record 1 12 PNone (Some 7)) = ''2107''"
proof -
  let ?a = "mk_record 1 12 PNone (Some 7)"
  let ?b = "mk_record 2 12 (PInt 5) (Some 7)"
  have h: "rec_document_id ?a = rec_document_id ?b" "rec_sheet ?a = rec_sheet ?b"
    "rec_row_id ?a = rec_row_id ?b"
    by (simp_all add: mk_record_def)
  have s7: "str_opt (rec_document_id ?a) = ''7''"
    by (simp add: mk_record_def str_opt_def str_int_def)
  have s0: "str_int (rec_sheet ?a) = ''0''"
    by (simp add: mk_record_def str_int_def)
  have s12: "str_int (rec_row_id ?a) = ''12''"
    by (simp add: mk_record_def str_int_def)
  note t = tid_deterministic [OF h, of rev]
  from t have e: "tid rev ?a = tid rev ?b" by blast
  from t have "tid rev ?a =
      rev (str_opt (rec_document_id ?a) @ str_int (rec_sheet ?a) @ str_int (rec_row_id ?a))"
    by blast
  then have v: "tid rev ?a = ''2107''"
    unfolding s7 s0 s12 by simp
  from e v show ?thesis by blast
qed

lemma str_of_py_of_str: "str_of_py (Some (py_of_str v)) = v"
  by (cases v) (simp_all add: str_of_py_def py_of_str_def)

text \<open>
  Claim C8. For a \<open>Metadata\<close> whose \<open>content_hash\<close> and \<open>foreign_id\<close> are read from the
  data it is built from: the getter of \<open>meta\<close> yields a value with the two columns of the
  document, the setter writes the two properties of a \<open>Metadata\<close> into the columns, and
  reading after writing gives them back.
\<close>

theorem meta_round_trip:
  assumes ch: "\<And>d. md_content_hash M (md_from_data M d) = str_of_py (d ''content_hash'')"
    and fi: "\<And>d. md_foreign_id M (md_from_data M d) = str_of_py (d ''foreign_id'')"
  shows "md_content_hash M (fst (meta_get M self)) = doc_content_hash self
    \<and> md_foreign_id M (fst (meta_get M self)) = doc_foreign_id self
    \<and> doc_content_hash (meta_set M (MetadataObj m) self) = md_content_hash M m
    \<and> doc_foreign_id (meta_set M (MetadataObj m) self) = md_foreign_id M m
    \<and> md_content_hash M (fst (meta_get M (meta_set M (MetadataObj m) self))) = md_content_hash M m
    \<and> md_foreign_id M (fst (meta_get M (meta_set M (MetadataObj m) self))) = md_foreign_id M m"
proof -
  have get_ch: "md_content_hash M (fst (meta_get M d)) = doc_content_hash d" for d
    by (simp add: meta_get_data ch str_of_py_of_str)
  have get_fi: "md_foreign_id M (fst (meta_get M d)) = doc_foreign_id d" for d
    by (simp add: meta_get_data fi str_of_py_of_str)
  have set_ch: "doc_content_hash (meta_set M (MetadataObj m) self) = md_content_hash M m"
    by (simp add: meta_set_def)
  have set_fi: "doc_foreign_id (meta_set M (MetadataObj m) self) = md_foreign_id M m"
    by (simp add: meta_set_def)
  show ?thesis
    by (simp only: get_ch get_fi set_ch set_fi)
qed

text \<open>The dictionary-backed \<open>Metadata\<close> meets the two assumptions.\<close>

theorem meta_round_trip_witness:
  "md_content_hash dict_metadata (fst (meta_get dict_metadata (mk_document (Some 7) ''text''))) =
     Some ''abc''
   \<and> md_content_hash dict_metadata
        (fst (meta_get dict_metadata
           (meta_set dict_metadata
              (MetadataObj [''content_hash'' \<mapsto> PStr ''ff'', ''foreign_id'' \<mapsto> PStr ''k''])
              (mk_document (Some 7) ''text'')))) = Some ''ff''
   \<and> doc_foreign_id
        (meta_set dict_metadata
           (MetadataObj [''content_hash'' \<mapsto> PStr ''ff'', ''foreign_id'' \<mapsto> PStr ''k''])
           (mk_document (Some 7) ''text'')) = Some ''k''"
proof -
  let ?d = "mk_document (Some 7) ''text''"
  let ?m = "[''content_hash'' \<mapsto> PStr ''ff'', ''foreign_id'' \<mapsto> PStr ''k'']"
  have ch: "\<And>d. md_content_hash dict_metadata (md_from_data dict_metadata d) =
      str_of_py (d ''content_hash'')"
    by (simp add: dict_metadata_def)
  have fi: "\<And>d. md_foreign_id dict_metadata (md_from_data dict_metadata d) =
      str_of_py (d ''foreign_id'')"
    by (simp add: dict_metadata_def)
  note t = meta_round_trip [of dict_metadata, OF ch fi, of ?d ?m]
  have c: "doc_content_hash ?d = Some ''abc''" by (simp add: mk_document_def)
  have mc: "md_content_hash dict_metadata ?m = Some ''ff''"
    by (simp add: dict_metadata_def str_of_py_def)
  have mf: "md_foreign_id dict_metadata ?m = Some ''k''"
    by (simp add: dict_metadata_def str_of_py_def)
  from t have "md_content_hash dict_metadata (fst (meta_get dict_metadata ?d)) = doc_content_hash ?d"
    by blast
  then have a: "md_content_hash dict_metadata (fst (meta_get dict_metadata ?d)) = Some ''abc''"
    unfolding c .
  from t have "md_content_hash dict_metadata
      (fst (meta_get dict_metadata (meta_set dict_metadata (MetadataObj ?m) ?d))) =
      md_content_hash dict_metadata ?m" by blast
  then have b: "md_content_hash dict_metadata
      (fst (meta_get dict_metadata (meta_set dict_metadata (MetadataObj ?m) ?d))) = Some ''ff''"
    unfolding mc .
  from t have "doc_foreign_id (meta_set dict_metadata (MetadataObj ?m) ?d) =
      md_foreign_id dict_metadata ?m" by blast
  then have e: "doc_foreign_id (meta_set dict_metadata (MetadataObj ?m) ?d) = Some ''k''"
    unfolding mf .
  from a b e show ?thesis by blast
qed

subsection \<open>text_parts\<close>

lemma chain_pages:
  "chain (map (page_text_parts sv) ps) =
     (map PStr (filter (\<lambda>t. sv (PStr t) \<noteq> None) (map page_text ps)), None)"
  by (induction ps) (simp_all add: page_text_parts_def Let_def)

lemma chain_records_ok:
  "list_all (\<lambda>r. is_dict (rec_data r)) rs \<Longrightarrow>
   chain (map (record_text_parts sv) rs) =
     (filter (\<lambda>v. sv v \<noteq> None) (concat (map (\<lambda>r. values_of (rec_data r)) rs)), None)"
proof (induction rs)
  case Nil
  then show ?case by simp
next
  case (Cons r rs)
  then obtain kvs where d: "rec_data r = PDict kvs"
    by (cases "rec_data r") (simp_all add: is_dict_def)
  from Cons show ?case
    by (simp add: record_text_parts_def values_of_def d)
qed

lemma chain_records_raise:
  "\<not> list_all (\<lambda>r. is_dict (rec_data r)) rs \<Longrightarrow>
   snd (chain (map (record_text_parts sv) rs)) = Some AttributeError"
proof (induction rs)
  case Nil
  then show ?case by simp
next
  case (Cons r rs)
  show ?case
  proof (cases "is_dict (rec_data r)")
    case True
    then obtain kvs where d: "rec_data r = PDict kvs"
      by (cases "rec_data r") (simp_all add: is_dict_def)
    have h: "record_text_parts sv r = (filter (\<lambda>v. sv v \<noteq> None) (map snd kvs), None)"
      by (simp add: record_text_parts_def d)
    have "snd (chain (map (record_text_parts sv) rs)) = Some AttributeError"
      using True Cons by simp
    then show ?thesis
      by (cases "chain (map (record_text_parts sv) rs)") (simp add: h)
  next
    case False
    then show ?thesis
      by (cases "rec_data r") (simp_all add: record_text_parts_def is_dict_def)
  qed
qed

text \<open>
  What \<open>text_parts\<close> does by the type of the document, with the string conversion as a
  parameter: nothing for another type; for a text document the texts of the pages whose
  conversion is not \<open>None\<close>; for a tabular document whose records all hold a dictionary
  the values whose conversion is not \<open>None\<close>; an \<open>AttributeError\<close> as soon as a record
  holds anything else.
\<close>

lemma text_parts_by_type:
  "(doc_type self \<noteq> ''text'' \<and> doc_type self \<noteq> ''tabular'' \<longrightarrow>
      text_parts sv s self = ([], None))
   \<and> (doc_type self = ''text'' \<longrightarrow>
        text_parts sv s self =
          (map PStr (filter (\<lambda>t. sv (PStr t) \<noteq> None) (map page_text (pages s self))), None))
   \<and> (doc_type self = ''tabular'' \<and> list_all (\<lambda>r. is_dict (rec_data r)) (records s self) \<longrightarrow>
        text_parts sv s self =
          (filter (\<lambda>v. sv v \<noteq> None)
             (concat (map (\<lambda>r. values_of (rec_data r)) (records s self))), None))
   \<and> (doc_type self = ''tabular'' \<and> \<not> list_all (\<lambda>r. is_dict (rec_data r)) (records s self) \<longrightarrow>
        snd (text_parts sv s self) = Some AttributeError)"
  by (simp add: text_parts_def chain_pages chain_records_ok chain_records_raise)

text \<open>One document of each kind.\<close>

lemma text_parts_by_type_example:
  "text_parts plain_string_value text_db (mk_document (Some 7) ''text'') = ([PStr ''first''], None)
   \<and> text_parts plain_string_value text_db (mk_document (Some 8) ''tabular'') =
       ([PStr ''x'', PInt 3], None)
   \<and> text_parts plain_string_value text_db (mk_document (Some 5) ''other'') = ([], None)"
proof -
  let ?t = "mk_document (Some 7) ''text''"
  let ?b = "mk_document (Some 8) ''tabular''"
  let ?o = "mk_document (Some 5) ''other''"
  have ty: "doc_type ?t = ''text''" "doc_type ?b = ''tabular''"
    "doc_type ?o \<noteq> ''text'' \<and> doc_type ?o \<noteq> ''tabular''"
    by (simp_all add: mk_document_def)
  have ps: "pages text_db ?t = [mk_page 1 1 ''first'' (Some 7), mk_page 2 2 [] (Some 7)]"
    by (simp add: pages_def text_db_def mk_document_def mk_page_def)
  have rs: "records text_db ?b =
      [mk_record 1 0 (PDict [(''a'', PStr ''x''), (''b'', PNone), (''c'', PInt 3)]) (Some 8)]"
    by (simp add: records_def text_db_def mk_document_def mk_record_def)
  have dicts: "list_all (\<lambda>r. is_dict (rec_data r)) (records text_db ?b)"
    unfolding rs by (simp add: mk_record_def is_dict_def)
  from text_parts_by_type [of ?t plain_string_value text_db] ty(1)
  have "text_parts plain_string_value text_db ?t =
      (map PStr (filter (\<lambda>t. plain_string_value (PStr t) \<noteq> None)
         (map page_text (pages text_db ?t))), None)" by blast
  then have a: "text_parts plain_string_value text_db ?t = ([PStr ''first''], None)"
    unfolding ps by (simp add: mk_page_def plain_string_value_def)
  from text_parts_by_type [of ?b plain_string_value text_db] ty(2) dicts
  have "text_parts plain_string_value text_db ?b =
      (filter (\<lambda>v. plain_string_value v \<noteq> None)
         (concat (map (\<lambda>r. values_of (rec_data r)) (records text_db ?b))), None)" by blast
  then have b: "text_parts plain_string_value text_db ?b = ([PStr ''x'', PInt 3], None)"
    unfolding rs by (simp add: mk_record_def values_of_def plain_string_value_def)
  from text_parts_by_type [of ?o plain_string_value text_db] ty(3)
  have c: "text_parts plain_string_value text_db ?o = ([], None)" by blast
  from a b c show ?thesis by blast
qed

text \<open>
  Claim C9. A tabular document yields the values of its records whose string conversion is
  not \<open>None\<close>. Here the first record of document 9 has null data, which the nullable
  \<open>data\<close> column allows, and the second holds \<open>y\<close> under one key: the claim expects
  \<open>y\<close> to be yielded, and \<open>text_parts\<close> yields nothing and raises at
  \<open>self.data.values()\<close>, whatever the string conversion is.
\<close>

theorem text_parts_null_data_raises:
  "text_parts sv text_db (mk_document (Some 9) ''tabular'') = ([], Some AttributeError)
   \<and> map rec_data (records text_db (mk_document (Some 9) ''tabular'')) =
       [PNone, PDict [(''a'', PStr ''y'')]]
   \<and> filter (\<lambda>v. plain_string_value v \<noteq> None)
        (concat (map (\<lambda>r. values_of (rec_data r))
           (records text_db (mk_document (Some 9) ''tabular'')))) = [PStr ''y'']"
  by (simp add: text_parts_def records_def text_db_def empty_db_def mk_document_def mk_record_def
      record_text_parts_def plain_string_value_def values_of_def)

end
